theory Spec2Isabelle
  imports Main
begin

section \<open>Choosing the LLM provider for template generation\<close>

text \<open>
  The module \<^verbatim>\<open>servers/fastapi/utils/template_llm_provider.py\<close> holds three functions
  without parameters. Each of them obtains its inputs by calling two collaborators that
  live in other modules,
  \<^verbatim>\<open>get_template_llm_provider_env()\<close> (the value of the setting TEMPLATE_LLM_PROVIDER, a
  string or \<^verbatim>\<open>None\<close>) and \<^verbatim>\<open>get_llm_provider()\<close> (the provider of content generation).
  The embedding passes the two collaborators in as arguments, threads a state of
  arbitrary type through their calls in the order the source makes them, and represents a
  raised exception by \<open>Inl\<close>.
\<close>

subsection \<open>Data\<close>

text \<open>
  Modelled from the spec: the enumeration \<^verbatim>\<open>LLMProvider\<close> of \<^verbatim>\<open>enums/llm_provider.py\<close>,
  which is imported by the module and not part of it. The module refers to the members
  \<^verbatim>\<open>OPENAI\<close> (the hosted API backend), \<^verbatim>\<open>OLLAMA\<close> and \<^verbatim>\<open>CUSTOM\<close> (the two local kinds).
  Any further member of the enumeration is \<open>OTHER name\<close>; members are compared by
  identity, which is equality of constructors here.
\<close>

datatype LLMProvider = OPENAI | OLLAMA | CUSTOM | OTHER string

text \<open>An exception raised by a collaborator, kept opaque.\<close>

datatype exn = Raised string

text \<open>
  A collaborator reads the state it is called in and hands back either an exception or a
  value, together with the state it leaves behind.
\<close>

type_synonym ('s, 'a) lookup = "'s \<Rightarrow> (exn + 'a) \<times> 's"

subsection \<open>The functions of the module\<close>

text \<open>
  \<^verbatim>\<open>get_template_llm_provider\<close>: the two lookups happen first, the setting before the
  content provider, with no handler around them; then three tests in order. Comparing
  \<^verbatim>\<open>None\<close> with a string is false in Python, so an unset setting reaches the last test.
\<close>

definition get_template_llm_provider ::
  "('s, string option) lookup \<Rightarrow> ('s, LLMProvider) lookup \<Rightarrow> 's \<Rightarrow> (exn + LLMProvider) \<times> 's"
where
  "get_template_llm_provider get_template_llm_provider_env get_llm_provider s =
     (case get_template_llm_provider_env s of
        (Inl e, s1) \<Rightarrow> (Inl e, s1)
      | (Inr template_provider_setting, s1) \<Rightarrow>
          (case get_llm_provider s1 of
             (Inl e, s2) \<Rightarrow> (Inl e, s2)
           | (Inr content_provider, s2) \<Rightarrow>
               (if template_provider_setting = Some ''api'' then (Inr OPENAI, s2)
                else if template_provider_setting = Some ''local'' then (Inr content_provider, s2)
                else if content_provider \<in> set [OLLAMA, CUSTOM] then (Inr content_provider, s2)
                else (Inr OPENAI, s2))))"

text \<open>\<^verbatim>\<open>should_use_local_model_for_templates\<close>: one call, then a membership test.\<close>

definition should_use_local_model_for_templates ::
  "('s, string option) lookup \<Rightarrow> ('s, LLMProvider) lookup \<Rightarrow> 's \<Rightarrow> (exn + bool) \<times> 's"
where
  "should_use_local_model_for_templates get_template_llm_provider_env get_llm_provider s =
     (case get_template_llm_provider get_template_llm_provider_env get_llm_provider s of
        (Inl e, s') \<Rightarrow> (Inl e, s')
      | (Inr p, s') \<Rightarrow> (Inr (p \<in> set [OLLAMA, CUSTOM]), s'))"

text \<open>\<^verbatim>\<open>should_use_api_model_for_templates\<close>: one call, then an equality test.\<close>

definition should_use_api_model_for_templates ::
  "('s, string option) lookup \<Rightarrow> ('s, LLMProvider) lookup \<Rightarrow> 's \<Rightarrow> (exn + bool) \<times> 's"
where
  "should_use_api_model_for_templates get_template_llm_provider_env get_llm_provider s =
     (case get_template_llm_provider get_template_llm_provider_env get_llm_provider s of
        (Inl e, s') \<Rightarrow> (Inl e, s')
      | (Inr p, s') \<Rightarrow> (Inr (p = OPENAI), s'))"

subsection \<open>Collaborators for concrete runs\<close>

text \<open>
  For running the functions on concrete inputs the state is a pair of counters, the
  number of calls each collaborator has received so far. \<open>env_is v\<close> and \<open>provider_is c\<close>
  answer with a fixed value, \<open>env_raises m\<close> and \<open>provider_raises m\<close> raise; each counts
  its call.
\<close>

definition env_is :: "string option \<Rightarrow> (nat \<times> nat, string option) lookup" where
  "env_is v = (\<lambda>(i, j). (Inr v, (Suc i, j)))"

definition env_raises :: "string \<Rightarrow> (nat \<times> nat, string option) lookup" where
  "env_raises m = (\<lambda>(i, j). (Inl (Raised m), (Suc i, j)))"

definition provider_is :: "LLMProvider \<Rightarrow> (nat \<times> nat, LLMProvider) lookup" where
  "provider_is c = (\<lambda>(i, j). (Inr c, (i, Suc j)))"

definition provider_raises :: "string \<Rightarrow> (nat \<times> nat, LLMProvider) lookup" where
  "provider_raises m = (\<lambda>(i, j). (Inl (Raised m), (i, Suc j)))"

section \<open>Properties\<close>

lemma env_is_run: "env_is v (i, j) = (Inr v, (Suc i, j))"
  by (simp add: env_is_def)

lemma env_raises_run: "env_raises m (i, j) = (Inl (Raised m), (Suc i, j))"
  by (simp add: env_raises_def)

lemma provider_is_run: "provider_is c (i, j) = (Inr c, (i, Suc j))"
  by (simp add: provider_is_def)

lemma provider_raises_run: "provider_raises m (i, j) = (Inl (Raised m), (i, Suc j))"
  by (simp add: provider_raises_def)

lemmas run_simps = env_is_run env_raises_run provider_is_run provider_raises_run

text \<open>
  What the function computes once both lookups have answered: the shared fact behind the
  theorems below.
\<close>

lemma get_template_llm_provider_answered:
  assumes "E s = (Inr ov, s1)" and "P s1 = (Inr c, s2)"
  shows "get_template_llm_provider E P s =
           (Inr (if ov = Some ''api'' then OPENAI
                 else if ov = Some ''local'' then c
                 else if c = OLLAMA \<or> c = CUSTOM then c
                 else OPENAI), s2)"
  using assms by (simp add: get_template_llm_provider_def)

text \<open>
  C1: when the setting is "api", the function returns \<open>OPENAI\<close> whatever the content
  provider is, a local one included.
\<close>

theorem override_api_returns_openai:
  assumes "E s = (Inr (Some ''api''), s1)" and "P s1 = (Inr c, s2)"
  shows "get_template_llm_provider E P s = (Inr OPENAI, s2)"
  using assms by (simp add: get_template_llm_provider_answered)

theorem override_api_returns_openai_witness:
  "get_template_llm_provider (env_is (Some ''api'')) (provider_is OLLAMA) (0, 0)
     = (Inr OPENAI, (1, 1))
   \<and> get_template_llm_provider (env_is (Some ''api'')) (provider_is CUSTOM) (0, 0)
     = (Inr OPENAI, (1, 1))"
  using override_api_returns_openai
          [of "env_is (Some ''api'')" "(0, 0)" "(1, 0)" "provider_is OLLAMA" OLLAMA "(1, 1)"]
        override_api_returns_openai
          [of "env_is (Some ''api'')" "(0, 0)" "(1, 0)" "provider_is CUSTOM" CUSTOM "(1, 1)"]
  by (simp add: run_simps)

text \<open>
  C2: when the setting is "local", the function returns the content provider as it is,
  of whatever kind: a local one, \<open>OPENAI\<close> itself, or any other member.
\<close>

theorem override_local_returns_content_provider:
  assumes "E s = (Inr (Some ''local''), s1)" and "P s1 = (Inr c, s2)"
  shows "get_template_llm_provider E P s = (Inr c, s2)"
  using assms by (simp add: get_template_llm_provider_answered)

theorem override_local_returns_content_provider_witness:
  "get_template_llm_provider (env_is (Some ''local'')) (provider_is CUSTOM) (0, 0)
     = (Inr CUSTOM, (1, 1))
   \<and> get_template_llm_provider (env_is (Some ''local'')) (provider_is OPENAI) (0, 0)
     = (Inr OPENAI, (1, 1))
   \<and> get_template_llm_provider (env_is (Some ''local'')) (provider_is (OTHER ''google'')) (0, 0)
     = (Inr (OTHER ''google''), (1, 1))"
  using override_local_returns_content_provider
          [of "env_is (Some ''local'')" "(0, 0)" "(1, 0)" "provider_is CUSTOM" CUSTOM "(1, 1)"]
        override_local_returns_content_provider
          [of "env_is (Some ''local'')" "(0, 0)" "(1, 0)" "provider_is OPENAI" OPENAI "(1, 1)"]
        override_local_returns_content_provider
          [of "env_is (Some ''local'')" "(0, 0)" "(1, 0)"
              "provider_is (OTHER ''google'')" "OTHER ''google''" "(1, 1)"]
  by (simp add: run_simps)

text \<open>
  C3: when the setting is neither "api" nor "local" (unset, in particular), a content
  provider \<open>OLLAMA\<close> or \<open>CUSTOM\<close> is returned unchanged and every other content provider
  gives \<open>OPENAI\<close>.
\<close>

theorem unset_applies_default_policy:
  assumes "E s = (Inr ov, s1)" and "ov \<noteq> Some ''api''" and "ov \<noteq> Some ''local''"
    and "P s1 = (Inr c, s2)"
  shows "get_template_llm_provider E P s =
           (Inr (if c = OLLAMA \<or> c = CUSTOM then c else OPENAI), s2)"
  using assms by (simp add: get_template_llm_provider_answered)

theorem unset_applies_default_policy_witness:
  "get_template_llm_provider (env_is None) (provider_is OLLAMA) (0, 0) = (Inr OLLAMA, (1, 1))
   \<and> get_template_llm_provider (env_is None) (provider_is CUSTOM) (0, 0) = (Inr CUSTOM, (1, 1))
   \<and> get_template_llm_provider (env_is None) (provider_is OPENAI) (0, 0) = (Inr OPENAI, (1, 1))
   \<and> get_template_llm_provider (env_is None) (provider_is (OTHER ''google'')) (0, 0)
     = (Inr OPENAI, (1, 1))"
  using unset_applies_default_policy
          [of "env_is None" "(0, 0)" None "(1, 0)" "provider_is OLLAMA" OLLAMA "(1, 1)"]
        unset_applies_default_policy
          [of "env_is None" "(0, 0)" None "(1, 0)" "provider_is CUSTOM" CUSTOM "(1, 1)"]
        unset_applies_default_policy
          [of "env_is None" "(0, 0)" None "(1, 0)" "provider_is OPENAI" OPENAI "(1, 1)"]
        unset_applies_default_policy
          [of "env_is None" "(0, 0)" None "(1, 0)"
              "provider_is (OTHER ''google'')" "OTHER ''google''" "(1, 1)"]
  by (simp add: run_simps)

text \<open>
  C4: for every setting and content provider, the boolean that
  \<open>should_use_local_model_for_templates\<close> returns is true exactly when
  \<open>get_template_llm_provider\<close>, run on the same inputs, returns \<open>OLLAMA\<close> or \<open>CUSTOM\<close>; it
  is false for every other result.
\<close>

theorem should_use_local_iff_resolved_local:
  assumes "E s = (Inr ov, s1)" and "P s1 = (Inr c, s2)"
  shows "should_use_local_model_for_templates E P s =
           (Inr (fst (get_template_llm_provider E P s) = Inr OLLAMA
                 \<or> fst (get_template_llm_provider E P s) = Inr CUSTOM), s2)"
  using assms
  by (simp add: should_use_local_model_for_templates_def get_template_llm_provider_answered)

theorem should_use_local_iff_resolved_local_witness:
  "should_use_local_model_for_templates (env_is None) (provider_is OLLAMA) (0, 0)
     = (Inr True, (1, 1))
   \<and> should_use_local_model_for_templates (env_is (Some ''api'')) (provider_is OLLAMA) (0, 0)
     = (Inr False, (1, 1))
   \<and> should_use_local_model_for_templates (env_is (Some ''local''))
        (provider_is (OTHER ''google'')) (0, 0)
     = (Inr False, (1, 1))"
  using should_use_local_iff_resolved_local
          [of "env_is None" "(0, 0)" None "(1, 0)" "provider_is OLLAMA" OLLAMA "(1, 1)"]
        should_use_local_iff_resolved_local
          [of "env_is (Some ''api'')" "(0, 0)" "Some ''api''" "(1, 0)"
              "provider_is OLLAMA" OLLAMA "(1, 1)"]
        should_use_local_iff_resolved_local
          [of "env_is (Some ''local'')" "(0, 0)" "Some ''local''" "(1, 0)"
              "provider_is (OTHER ''google'')" "OTHER ''google''" "(1, 1)"]
        get_template_llm_provider_answered
          [of "env_is None" "(0, 0)" None "(1, 0)" "provider_is OLLAMA" OLLAMA "(1, 1)"]
        get_template_llm_provider_answered
          [of "env_is (Some ''api'')" "(0, 0)" "Some ''api''" "(1, 0)"
              "provider_is OLLAMA" OLLAMA "(1, 1)"]
        get_template_llm_provider_answered
          [of "env_is (Some ''local'')" "(0, 0)" "Some ''local''" "(1, 0)"
              "provider_is (OTHER ''google'')" "OTHER ''google''" "(1, 1)"]
  by (simp add: run_simps)

text \<open>
  C5: for every setting and content provider, the boolean that
  \<open>should_use_api_model_for_templates\<close> returns is true exactly when
  \<open>get_template_llm_provider\<close>, run on the same inputs, returns \<open>OPENAI\<close>; it is false for
  every other result.
\<close>

theorem should_use_api_iff_resolved_openai:
  assumes "E s = (Inr ov, s1)" and "P s1 = (Inr c, s2)"
  shows "should_use_api_model_for_templates E P s =
           (Inr (fst (get_template_llm_provider E P s) = Inr OPENAI), s2)"
  using assms
  by (simp add: should_use_api_model_for_templates_def get_template_llm_provider_answered)

theorem should_use_api_iff_resolved_openai_witness:
  "should_use_api_model_for_templates (env_is None) (provider_is OLLAMA) (0, 0)
     = (Inr False, (1, 1))
   \<and> should_use_api_model_for_templates (env_is (Some ''api'')) (provider_is OLLAMA) (0, 0)
     = (Inr True, (1, 1))
   \<and> should_use_api_model_for_templates (env_is (Some ''local''))
        (provider_is (OTHER ''google'')) (0, 0)
     = (Inr False, (1, 1))"
  using should_use_api_iff_resolved_openai
          [of "env_is None" "(0, 0)" None "(1, 0)" "provider_is OLLAMA" OLLAMA "(1, 1)"]
        should_use_api_iff_resolved_openai
          [of "env_is (Some ''api'')" "(0, 0)" "Some ''api''" "(1, 0)"
              "provider_is OLLAMA" OLLAMA "(1, 1)"]
        should_use_api_iff_resolved_openai
          [of "env_is (Some ''local'')" "(0, 0)" "Some ''local''" "(1, 0)"
              "provider_is (OTHER ''google'')" "OTHER ''google''" "(1, 1)"]
        get_template_llm_provider_answered
          [of "env_is None" "(0, 0)" None "(1, 0)" "provider_is OLLAMA" OLLAMA "(1, 1)"]
        get_template_llm_provider_answered
          [of "env_is (Some ''api'')" "(0, 0)" "Some ''api''" "(1, 0)"
              "provider_is OLLAMA" OLLAMA "(1, 1)"]
        get_template_llm_provider_answered
          [of "env_is (Some ''local'')" "(0, 0)" "Some ''local''" "(1, 0)"
              "provider_is (OTHER ''google'')" "OTHER ''google''" "(1, 1)"]
  by (simp add: run_simps)

text \<open>
  C6: for a setting among "api", "local" and unset, and a content provider among
  \<open>OPENAI\<close>, \<open>OLLAMA\<close> and \<open>CUSTOM\<close>, exactly one of
  \<open>should_use_local_model_for_templates\<close> and \<open>should_use_api_model_for_templates\<close>
  returns true.
\<close>

theorem exactly_one_predicate_on_closed_set:
  assumes "E s = (Inr ov, s1)" and "P s1 = (Inr c, s2)"
    and "ov = Some ''api'' \<or> ov = Some ''local'' \<or> ov = None"
    and "c = OPENAI \<or> c = OLLAMA \<or> c = CUSTOM"
  shows "\<exists>b. should_use_local_model_for_templates E P s = (Inr b, s2)
             \<and> should_use_api_model_for_templates E P s = (Inr (\<not> b), s2)"
proof -
  from assms(1,2) obtain p where p: "get_template_llm_provider E P s = (Inr p, s2)"
    by (simp add: get_template_llm_provider_answered)
  with assms have "p = OPENAI \<or> p = OLLAMA \<or> p = CUSTOM"
    by (auto simp: get_template_llm_provider_answered split: if_splits)
  then have "(p \<in> set [OLLAMA, CUSTOM]) = (p \<noteq> OPENAI)"
    by auto
  with p show ?thesis
    by (simp add: should_use_local_model_for_templates_def
        should_use_api_model_for_templates_def)
qed

theorem exactly_one_predicate_on_closed_set_witness:
  "(\<exists>b. should_use_local_model_for_templates (env_is None) (provider_is CUSTOM) (0, 0)
          = (Inr b, (1, 1))
        \<and> should_use_api_model_for_templates (env_is None) (provider_is CUSTOM) (0, 0)
          = (Inr (\<not> b), (1, 1)))
   \<and> (\<exists>b. should_use_local_model_for_templates (env_is (Some ''local'')) (provider_is OPENAI)
            (0, 0) = (Inr b, (1, 1))
        \<and> should_use_api_model_for_templates (env_is (Some ''local'')) (provider_is OPENAI)
            (0, 0) = (Inr (\<not> b), (1, 1)))"
  using exactly_one_predicate_on_closed_set
          [of "env_is None" "(0, 0)" None "(1, 0)" "provider_is CUSTOM" CUSTOM "(1, 1)"]
        exactly_one_predicate_on_closed_set
          [of "env_is (Some ''local'')" "(0, 0)" "Some ''local''" "(1, 0)"
              "provider_is OPENAI" OPENAI "(1, 1)"]
  by (simp add: run_simps)

text \<open>
  C7: whenever both lookups answer, whatever the setting and the content provider are,
  the function returns exactly one provider, it raises nothing, and the state it leaves
  is the one the two lookups left: it has no effect of its own.
\<close>

theorem get_template_llm_provider_total:
  assumes "E s = (Inr ov, s1)" and "P s1 = (Inr c, s2)"
  shows "(\<exists>!p. get_template_llm_provider E P s = (Inr p, s2))
         \<and> (\<forall>e. fst (get_template_llm_provider E P s) \<noteq> Inl e)
         \<and> snd (get_template_llm_provider E P s) = s2"
  using assms by (simp add: get_template_llm_provider_answered)

theorem get_template_llm_provider_total_witness:
  "(\<exists>!p. get_template_llm_provider (env_is (Some ''typo'')) (provider_is (OTHER ''google''))
           (0, 0) = (Inr p, (1, 1)))
   \<and> (\<forall>e. fst (get_template_llm_provider (env_is (Some ''typo''))
                 (provider_is (OTHER ''google'')) (0, 0)) \<noteq> Inl e)
   \<and> snd (get_template_llm_provider (env_is (Some ''typo'')) (provider_is (OTHER ''google''))
           (0, 0)) = (1, 1)"
  using get_template_llm_provider_total
          [of "env_is (Some ''typo'')" "(0, 0)" "Some ''typo''" "(1, 0)"
              "provider_is (OTHER ''google'')" "OTHER ''google''" "(1, 1)"]
  by (simp add: run_simps)

text \<open>
  C8: two calls that see the same setting and the same content provider return the same
  provider, in whatever states they are made and whatever happened before: the result
  depends on the two values only.
\<close>

theorem get_template_llm_provider_deterministic:
  assumes "E s = (Inr ov, s1)" and "P s1 = (Inr c, s2)"
    and "E' t = (Inr ov, t1)" and "P' t1 = (Inr c, t2)"
  shows "fst (get_template_llm_provider E P s) = fst (get_template_llm_provider E' P' t)"
  using assms by (simp add: get_template_llm_provider_answered)

theorem get_template_llm_provider_deterministic_witness:
  "fst (get_template_llm_provider (env_is None) (provider_is OLLAMA) (0, 0))
     = fst (get_template_llm_provider (env_is None) (provider_is OLLAMA) (1, 1))
   \<and> fst (get_template_llm_provider (env_is None) (provider_is OLLAMA) (0, 0))
     = fst (get_template_llm_provider (env_is None) (provider_is OLLAMA) (7, 3))"
  using get_template_llm_provider_deterministic
          [of "env_is None" "(0, 0)" None "(1, 0)" "provider_is OLLAMA" OLLAMA "(1, 1)"
              "env_is None" "(1, 1)" "(2, 1)" "provider_is OLLAMA" "(2, 2)"]
        get_template_llm_provider_deterministic
          [of "env_is None" "(0, 0)" None "(1, 0)" "provider_is OLLAMA" OLLAMA "(1, 1)"
              "env_is None" "(7, 3)" "(8, 3)" "provider_is OLLAMA" "(8, 4)"]
  by (simp add: run_simps)

text \<open>
  C9: an exception raised by either lookup is what the call raises, the same exception.
  When the setting lookup raises, the call ends in the state that lookup left, so the
  content provider is never asked and nothing is tried again; when the content-provider
  lookup raises, the call ends in the state that lookup left and no provider is returned.
\<close>

theorem lookup_failure_propagates:
  "(E s = (Inl e, s1) \<longrightarrow> get_template_llm_provider E P s = (Inl e, s1))
   \<and> (E s = (Inr ov, s1) \<and> P s1 = (Inl e, s2)
        \<longrightarrow> get_template_llm_provider E P s = (Inl e, s2))"
  by (simp add: get_template_llm_provider_def)

theorem lookup_failure_propagates_witness:
  "get_template_llm_provider (env_raises ''bad setting'') (provider_is OLLAMA) (0, 0)
     = (Inl (Raised ''bad setting''), (1, 0))
   \<and> get_template_llm_provider (env_is (Some ''local'')) (provider_raises ''bad provider'')
        (0, 0)
     = (Inl (Raised ''bad provider''), (1, 1))"
  using lookup_failure_propagates
          [of "env_raises ''bad setting''" "(0, 0)" "Raised ''bad setting''" "(1, 0)"
              "provider_is OLLAMA"]
        lookup_failure_propagates
          [of "env_is (Some ''local'')" "(0, 0)" "Raised ''bad provider''" "(1, 0)"
              "provider_raises ''bad provider''" "Some ''local''" "(1, 1)"]
  by (simp add: run_simps)

text \<open>
  C10: a setting that is a string other than "api" and "local" (upper case, a typo, the
  empty string) is treated as the unset one: the call returns what it returns when the
  setting lookup answers \<^verbatim>\<open>None\<close>, the default policy, and raises nothing.
\<close>

theorem unrecognised_setting_is_unset:
  assumes "v \<noteq> ''api''" and "v \<noteq> ''local''"
    and "E s = (Inr (Some v), s1)" and "E0 s = (Inr None, s1)" and "P s1 = (Inr c, s2)"
  shows "get_template_llm_provider E P s = get_template_llm_provider E0 P s
         \<and> get_template_llm_provider E P s =
             (Inr (if c = OLLAMA \<or> c = CUSTOM then c else OPENAI), s2)"
  using assms by (simp add: get_template_llm_provider_answered)

theorem unrecognised_setting_is_unset_witness:
  "get_template_llm_provider (env_is (Some ''API'')) (provider_is OLLAMA) (0, 0)
     = get_template_llm_provider (env_is None) (provider_is OLLAMA) (0, 0)
   \<and> get_template_llm_provider (env_is (Some ''API'')) (provider_is OLLAMA) (0, 0)
     = (Inr OLLAMA, (1, 1))
   \<and> get_template_llm_provider (env_is (Some ''Local'')) (provider_is OPENAI) (0, 0)
     = get_template_llm_provider (env_is None) (provider_is OPENAI) (0, 0)
   \<and> get_template_llm_provider (env_is (Some ''Local'')) (provider_is OPENAI) (0, 0)
     = (Inr OPENAI, (1, 1))
   \<and> get_template_llm_provider (env_is (Some [])) (provider_is (OTHER ''google'')) (0, 0)
     = get_template_llm_provider (env_is None) (provider_is (OTHER ''google'')) (0, 0)
   \<and> get_template_llm_provider (env_is (Some [])) (provider_is (OTHER ''google'')) (0, 0)
     = (Inr OPENAI, (1, 1))"
  using unrecognised_setting_is_unset
          [of "''API''" "env_is (Some ''API'')" "(0, 0)" "(1, 0)" "env_is None"
              "provider_is OLLAMA" OLLAMA "(1, 1)"]
        unrecognised_setting_is_unset
          [of "''Local''" "env_is (Some ''Local'')" "(0, 0)" "(1, 0)" "env_is None"
              "provider_is OPENAI" OPENAI "(1, 1)"]
        unrecognised_setting_is_unset
          [of "[]" "env_is (Some [])" "(0, 0)" "(1, 0)" "env_is None"
              "provider_is (OTHER ''google'')" "OTHER ''google''" "(1, 1)"]
  by (auto simp: run_simps)

subsection \<open>Outside the closed set\<close>

text \<open>
  The restriction of C6 to the three named providers is needed: with the setting "local"
  and a content provider that is neither local nor \<open>OPENAI\<close>, both predicates return false.
\<close>

lemma both_predicates_false_for_other_provider:
  "should_use_local_model_for_templates (env_is (Some ''local''))
     (provider_is (OTHER ''google'')) (0, 0) = (Inr False, (1, 1))
   \<and> should_use_api_model_for_templates (env_is (Some ''local''))
     (provider_is (OTHER ''google'')) (0, 0) = (Inr False, (1, 1))"
  by (simp add: should_use_local_model_for_templates_def
      should_use_api_model_for_templates_def get_template_llm_provider_def run_simps)

end
